theory Spec2Isabelle
  imports Main "HOL-Library.Word"
begin

section \<open>Data model of package connection\<close>

text \<open>
  Go values are modelled as follows. A byte is an 8-bit word, a \<^verbatim>\<open>[]byte\<close> is a
  list of bytes (the nil slice and the empty slice are both the empty list), a Go
  \<^verbatim>\<open>string\<close> is a list of characters. A value of the interface type
  \<^verbatim>\<open>error\<close> is an \<open>error option\<close>, where \<open>None\<close> is \<^verbatim>\<open>nil\<close>.
  A Go result pair \<^verbatim>\<open>(v, err)\<close> stays a pair, since the code returns a value
  next to a non-nil error in several places and discards errors in others.
\<close>

type_synonym byte = "8 word"

datatype error =
    ErrCantGetHSPacket
  | ErrNoNameYet
  | ErrNotImplemented
  | ErrNoReadLeft
  | ErrOther string

text \<open>
  \<^verbatim>\<open>protocol.Packet\<close> and \<^verbatim>\<open>handshaking.ServerBoundHandshake\<close> are declared in
  packages that are not part of the sources at hand; their fields are taken from the way
  connection.go and the gateway test use them (\<^verbatim>\<open>Packet{ID: b[1], Data: b[2:]}\<close>,
  \<^verbatim>\<open>ServerBoundHandshake{ServerAddress: ..., ServerPort: 25565, ProtocolVersion: 754,
  NextState: 2}\<close>). \<open>NextState\<close> is a \<^verbatim>\<open>protocol.Byte\<close>, a signed 8-bit integer,
  as is \<^verbatim>\<open>RequestType\<close> (\<^verbatim>\<open>int8\<close>).
\<close>

record Packet =
  ID :: byte
  Data :: "byte list"

definition Packet_zero :: Packet where
  "Packet_zero = \<lparr>ID = 0, Data = []\<rparr>"

record ServerBoundHandshake =
  ProtocolVersion :: "32 word"
  ServerAddress :: string
  ServerPort :: "16 word"
  NextState :: "8 word"

definition ServerBoundHandshake_zero :: ServerBoundHandshake where
  "ServerBoundHandshake_zero =
     \<lparr>ProtocolVersion = 0, ServerAddress = [], ServerPort = 0, NextState = 0\<rparr>"

datatype Addr = TCPAddr (IP: "byte list") (Port: int)

type_synonym RequestType = "8 word"

definition UnknownRequest :: RequestType where
  "UnknownRequest = 0"

definition StatusRequest :: RequestType where
  "StatusRequest = 1"

definition LoginRequest :: RequestType where
  "LoginRequest = 2"

subsection \<open>Interfaces\<close>

text \<open>
  A Go interface value is an object with hidden state and a method table. The method
  table is a record of functions over the object's state \<open>'s\<close>; every method takes the
  state and returns its results together with the state after the call. Interface
  embedding is record extension. \<open>Read\<close> receives the contents of the buffer it is
  handed and returns the contents after the call next to \<^verbatim>\<open>(n, err)\<close>.
\<close>

record 's PipeConnection =
  Read :: "'s \<Rightarrow> byte list \<Rightarrow> (int \<times> error option \<times> byte list) \<times> 's"
  Write :: "'s \<Rightarrow> byte list \<Rightarrow> (int \<times> error option) \<times> 's"

record 's Connection = "'s PipeConnection" +
  WritePacket :: "'s \<Rightarrow> Packet \<Rightarrow> error option \<times> 's"
  ReadPacket :: "'s \<Rightarrow> (Packet \<times> error option) \<times> 's"

record 's HSConnection = "'s Connection" +
  Hs :: "'s \<Rightarrow> (ServerBoundHandshake \<times> error option) \<times> 's"
  HsPk :: "'s \<Rightarrow> (Packet \<times> error option) \<times> 's"
  RemoteAddr :: "'s \<Rightarrow> Addr \<times> 's"

subsection \<open>BasicPlayerConnection\<close>

record 's BasicPlayerConnection =
  conn :: 's
  remoteAddr :: Addr
  hsPk :: Packet
  loginPk :: Packet
  hs :: ServerBoundHandshake
  hasHS :: bool
  hasHSPk :: bool

definition CreateBasicPlayerConnection :: "'s \<Rightarrow> Addr \<Rightarrow> 's BasicPlayerConnection" where
  "CreateBasicPlayerConnection cn ra =
     \<lparr>conn = cn, remoteAddr = ra, hsPk = Packet_zero, loginPk = Packet_zero,
      hs = ServerBoundHandshake_zero, hasHS = False, hasHSPk = False\<rparr>"

definition BasicPlayerConnection_ReadPacket ::
  "('s, 'z) Connection_scheme \<Rightarrow> 's BasicPlayerConnection
     \<Rightarrow> (Packet \<times> error option) \<times> 's BasicPlayerConnection" where
  "BasicPlayerConnection_ReadPacket ops c =
     (case ReadPacket ops (conn c) of
        ((pk, err), s') \<Rightarrow>
          if err \<noteq> None then ((Packet_zero, err), c\<lparr>conn := s'\<rparr>)
          else ((pk, None), c\<lparr>conn := s'\<rparr>))"

definition BasicPlayerConnection_WritePacket ::
  "'s BasicPlayerConnection \<Rightarrow> Packet \<Rightarrow> error option \<times> 's BasicPlayerConnection" where
  "BasicPlayerConnection_WritePacket c p = (None, c)"

definition BasicPlayerConnection_RemoteAddr ::
  "'s BasicPlayerConnection \<Rightarrow> Addr \<times> 's BasicPlayerConnection" where
  "BasicPlayerConnection_RemoteAddr c = (remoteAddr c, c)"

definition BasicPlayerConnection_HsPk ::
  "('s, 'z) Connection_scheme \<Rightarrow> 's BasicPlayerConnection
     \<Rightarrow> (Packet \<times> error option) \<times> 's BasicPlayerConnection" where
  "BasicPlayerConnection_HsPk ops c =
     (if hasHSPk c then ((hsPk c, None), c)
      else
        (case BasicPlayerConnection_ReadPacket ops c of
           ((pk, err), c') \<Rightarrow>
             if err \<noteq> None then ((pk, Some ErrCantGetHSPacket), c')
             else ((pk, None), c'\<lparr>hsPk := pk, hasHSPk := True\<rparr>)))"

text \<open>
  \<^verbatim>\<open>handshaking.UnmarshalServerBoundHandshake\<close> is not part of the sources at hand and
  is the parameter \<open>unm\<close>. \<^verbatim>\<open>c.hs, err = Unmarshal(pk)\<close> assigns the field before the
  error is tested.
\<close>

definition BasicPlayerConnection_Hs ::
  "(Packet \<Rightarrow> ServerBoundHandshake \<times> error option) \<Rightarrow> ('s, 'z) Connection_scheme
     \<Rightarrow> 's BasicPlayerConnection
     \<Rightarrow> (ServerBoundHandshake \<times> error option) \<times> 's BasicPlayerConnection" where
  "BasicPlayerConnection_Hs unm ops c =
     (if hasHS c then ((hs c, None), c)
      else
        (case BasicPlayerConnection_HsPk ops c of
           ((pk, err), c1) \<Rightarrow>
             if err \<noteq> None then ((hs c1, err), c1)
             else
               (case unm pk of
                  (h, err2) \<Rightarrow>
                    let c2 = c1\<lparr>hs := h\<rparr> in
                    if err2 \<noteq> None then ((hs c2, err2), c2)
                    else ((hs c2, None), c2\<lparr>hasHS := True\<rparr>))))"

definition BasicPlayerConnection_Name ::
  "'s BasicPlayerConnection \<Rightarrow> (string \<times> error option) \<times> 's BasicPlayerConnection" where
  "BasicPlayerConnection_Name c = (([], Some ErrNoNameYet), c)"

definition BasicPlayerConnection_LoginStart ::
  "('s, 'z) Connection_scheme \<Rightarrow> 's BasicPlayerConnection
     \<Rightarrow> (Packet \<times> error option) \<times> 's BasicPlayerConnection" where
  "BasicPlayerConnection_LoginStart ops c =
     (case BasicPlayerConnection_ReadPacket ops c of
        ((pk, _), c') \<Rightarrow> ((pk, None), c'\<lparr>loginPk := pk\<rparr>))"

definition BasicPlayerConnection_Read ::
  "('s, 'z) PipeConnection_scheme \<Rightarrow> 's BasicPlayerConnection \<Rightarrow> byte list
     \<Rightarrow> (int \<times> error option \<times> byte list) \<times> 's BasicPlayerConnection" where
  "BasicPlayerConnection_Read ops c b =
     (case Read ops (conn c) b of (r, s') \<Rightarrow> (r, c\<lparr>conn := s'\<rparr>))"

definition BasicPlayerConnection_Write ::
  "('s, 'z) PipeConnection_scheme \<Rightarrow> 's BasicPlayerConnection \<Rightarrow> byte list
     \<Rightarrow> (int \<times> error option) \<times> 's BasicPlayerConnection" where
  "BasicPlayerConnection_Write ops c b =
     (case Write ops (conn c) b of (r, s') \<Rightarrow> (r, c\<lparr>conn := s'\<rparr>))"

text \<open>The method table of a player connection, as the value of type HSConnection that
  the gateway receives.\<close>

definition BasicPlayerConnection_HSConnection ::
  "(Packet \<Rightarrow> ServerBoundHandshake \<times> error option) \<Rightarrow> ('s, 'z) Connection_scheme
     \<Rightarrow> ('s BasicPlayerConnection) HSConnection" where
  "BasicPlayerConnection_HSConnection unm ops =
     \<lparr>Read = BasicPlayerConnection_Read ops,
      Write = BasicPlayerConnection_Write ops,
      WritePacket = BasicPlayerConnection_WritePacket,
      ReadPacket = BasicPlayerConnection_ReadPacket ops,
      Hs = BasicPlayerConnection_Hs unm ops,
      HsPk = BasicPlayerConnection_HsPk ops,
      RemoteAddr = BasicPlayerConnection_RemoteAddr\<rparr>"

subsection \<open>BasicServerConn\<close>

record 's BasicServerConn =
  sconn :: 's
  statusPK :: Packet

definition CreateBasicServerConn :: "'s \<Rightarrow> Packet \<Rightarrow> 's BasicServerConn" where
  "CreateBasicServerConn cn pk = \<lparr>sconn = cn, statusPK = pk\<rparr>"

definition BasicServerConn_Status ::
  "('s, 'z) Connection_scheme \<Rightarrow> 's BasicServerConn
     \<Rightarrow> (Packet \<times> error option) \<times> 's BasicServerConn" where
  "BasicServerConn_Status ops c =
     (case WritePacket ops (sconn c) (statusPK c) of
        (_, s1) \<Rightarrow>
          (case ReadPacket ops s1 of (r, s2) \<Rightarrow> (r, c\<lparr>sconn := s2\<rparr>)))"

definition BasicServerConn_SendPK ::
  "('s, 'z) Connection_scheme \<Rightarrow> 's BasicServerConn \<Rightarrow> Packet
     \<Rightarrow> error option \<times> 's BasicServerConn" where
  "BasicServerConn_SendPK ops c pk =
     (case WritePacket ops (sconn c) pk of (e, s1) \<Rightarrow> (e, c\<lparr>sconn := s1\<rparr>))"

subsection \<open>Functions over a handshake connection\<close>

definition ServerAddr :: "('s, 'z) HSConnection_scheme \<Rightarrow> 's \<Rightarrow> string \<times> 's" where
  "ServerAddr ops s = (case Hs ops s of ((h, _), s') \<Rightarrow> (ServerAddress h, s'))"

definition ServerPort_of :: "('s, 'z) HSConnection_scheme \<Rightarrow> 's \<Rightarrow> 16 word \<times> 's" where
  "ServerPort_of ops s = (case Hs ops s of ((h, _), s') \<Rightarrow> (ServerPort h, s'))"

definition ProtocolVersion_of :: "('s, 'z) HSConnection_scheme \<Rightarrow> 's \<Rightarrow> 16 word \<times> 's" where
  "ProtocolVersion_of ops s =
     (case Hs ops s of ((h, _), s') \<Rightarrow> (ucast (ProtocolVersion h), s'))"

definition ParseRequestType :: "('s, 'z) HSConnection_scheme \<Rightarrow> 's \<Rightarrow> RequestType \<times> 's" where
  "ParseRequestType ops s = (case Hs ops s of ((h, _), s') \<Rightarrow> (NextState h, s'))"

subsection \<open>BasicConnection\<close>

text \<open>
  A \<open>BasicConnection\<close> owns a \<^verbatim>\<open>net.Conn\<close> (state \<open>'n\<close>, with \<open>Read\<close> and
  \<open>Write\<close>) and a buffered reader over it, seen here through the bytes it holds.
  \<^verbatim>\<open>Packet.Marshal\<close> and \<^verbatim>\<open>protocol.ReadPacket\<close> are not part of the sources at
  hand and are the parameters \<open>marshal\<close> and \<open>readPacket\<close>.
\<close>

record 'n BasicConnection =
  connection :: 'n
  reader :: "byte list"

definition BasicConnection_WritePacket ::
  "(Packet \<Rightarrow> byte list \<times> error option) \<Rightarrow> ('n, 'z) PipeConnection_scheme
     \<Rightarrow> 'n BasicConnection \<Rightarrow> Packet \<Rightarrow> error option \<times> 'n BasicConnection" where
  "BasicConnection_WritePacket marshal net c p =
     (case marshal p of
        (pk, _) \<Rightarrow>
          (case Write net (connection c) pk of
             ((_, err), s') \<Rightarrow> (err, c\<lparr>connection := s'\<rparr>)))"

definition BasicConnection_ReadPacket ::
  "(byte list \<Rightarrow> 'n \<Rightarrow> (Packet \<times> error option) \<times> byte list \<times> 'n)
     \<Rightarrow> 'n BasicConnection \<Rightarrow> (Packet \<times> error option) \<times> 'n BasicConnection" where
  "BasicConnection_ReadPacket readPacket c =
     (case readPacket (reader c) (connection c) of
        (r, rd', s') \<Rightarrow> (r, c\<lparr>connection := s', reader := rd'\<rparr>))"

definition BasicConnection_Read ::
  "('n, 'z) PipeConnection_scheme \<Rightarrow> 'n BasicConnection \<Rightarrow> byte list
     \<Rightarrow> (int \<times> error option \<times> byte list) \<times> 'n BasicConnection" where
  "BasicConnection_Read net c b =
     (case Read net (connection c) b of (r, s') \<Rightarrow> (r, c\<lparr>connection := s'\<rparr>))"

definition BasicConnection_Write ::
  "('n, 'z) PipeConnection_scheme \<Rightarrow> 'n BasicConnection \<Rightarrow> byte list
     \<Rightarrow> (int \<times> error option) \<times> 'n BasicConnection" where
  "BasicConnection_Write net c b =
     (case Write net (connection c) b of (r, s') \<Rightarrow> (r, c\<lparr>connection := s'\<rparr>))"

subsection \<open>The copy loop\<close>

text \<open>
  \<open>pipe\<close> allocates a buffer of \<open>0xffff\<close> zero bytes and loops for ever: read from
  \<open>c1\<close>, return on an error, write \<^verbatim>\<open>buffer[:n]\<close> to \<open>c2\<close>, return on an error. The
  loop has no other exit, so it is a partial function: \<open>None\<close> is the loop that never
  returns. \<^verbatim>\<open>buffer[:n]\<close> panics when \<open>n\<close> is negative or exceeds the buffer, which
  ends the loop as \<open>Panicked\<close>. The result carries the states in which the two
  connections are left. An implementation of \<open>Read\<close> returns a buffer of the length it
  was given.
\<close>

datatype ('a, 'b) pipe_exit = Returned 'a 'b | Panicked 'a 'b

partial_function (option) pipe_loop ::
  "('a, 'x) PipeConnection_scheme \<Rightarrow> ('b, 'y) PipeConnection_scheme
     \<Rightarrow> 'a \<Rightarrow> 'b \<Rightarrow> byte list \<Rightarrow> ('a, 'b) pipe_exit option" where
  "pipe_loop c1 c2 s1 s2 buffer =
     (case Read c1 s1 buffer of
        ((n, err, buffer'), s1') \<Rightarrow>
          if err \<noteq> None then Some (Returned s1' s2)
          else if n < 0 \<or> int (length buffer') < n then Some (Panicked s1' s2)
          else
            (case Write c2 s2 (take (nat n) buffer') of
               ((_, err'), s2') \<Rightarrow>
                 if err' \<noteq> None then Some (Returned s1' s2')
                 else pipe_loop c1 c2 s1' s2' buffer'))"

definition pipe ::
  "('a, 'x) PipeConnection_scheme \<Rightarrow> ('b, 'y) PipeConnection_scheme
     \<Rightarrow> 'a \<Rightarrow> 'b \<Rightarrow> ('a, 'b) pipe_exit option" where
  "pipe c1 c2 s1 s2 = pipe_loop c1 c2 s1 s2 (replicate 0xffff 0)"

subsection \<open>The address-keyed registry\<close>

text \<open>
  Modelled from the spec: the address-keyed server registry of package gateway
  (\<^verbatim>\<open>DefaultServerStore\<close> with \<^verbatim>\<open>AddServer\<close> and \<^verbatim>\<open>FindServer\<close>), of which only
  the test is part of the sources at hand. The registry maps a routing address to a
  backend; a freshly declared store holds nothing.
\<close>

type_synonym 'b DefaultServerStore = "string \<rightharpoonup> 'b"

definition DefaultServerStore_new :: "'b DefaultServerStore" where
  "DefaultServerStore_new = Map.empty"

text \<open>
  Modelled from the spec: \<^verbatim>\<open>AddServer(key, backend)\<close>, which registers the backend
  under the key and silently overwrites an earlier registration of the same key.
\<close>

definition AddServer :: "'b DefaultServerStore \<Rightarrow> string \<Rightarrow> 'b \<Rightarrow> 'b DefaultServerStore" where
  "AddServer store key b = store(key \<mapsto> b)"

text \<open>
  Modelled from the spec: \<^verbatim>\<open>FindServer(conn)\<close>, which reads the connection's
  handshake, extracts the server address (with \<open>ServerAddr\<close> of package connection) and
  looks it up by exact equality. A miss returns the nil backend and \<open>found = false\<close>.
\<close>

definition FindServer ::
  "('s, 'z) HSConnection_scheme \<Rightarrow> 'b DefaultServerStore \<Rightarrow> 's \<Rightarrow> ('b option \<times> bool) \<times> 's" where
  "FindServer ops store s =
     (case ServerAddr ops s of
        (addr, s') \<Rightarrow>
          (case store addr of
             None \<Rightarrow> ((None, False), s')
           | Some b \<Rightarrow> ((Some b, True), s')))"

text \<open>The registry after the registrations \<open>regs\<close>, made in this order on a new store.\<close>

definition registered :: "(string \<times> 'b) list \<Rightarrow> 'b DefaultServerStore" where
  "registered regs = fold (\<lambda>(key, b) store. AddServer store key b) regs DefaultServerStore_new"

subsection \<open>Test doubles of the gateway test\<close>

text \<open>
  \<^verbatim>\<open>testInConn\<close> of the gateway test: an incoming connection whose handshake is a
  field, and whose \<open>ReadPacket\<close> hands out the handshake packet, the login packet and
  then empty packets.
\<close>

record testInConn =
  t_writeCount :: int
  t_readCount :: int
  t_hs :: ServerBoundHandshake
  t_hsPk :: Packet
  t_reqType :: RequestType
  t_loginPK :: Packet

definition testInConn_WritePacket :: "testInConn \<Rightarrow> Packet \<Rightarrow> error option \<times> testInConn" where
  "testInConn_WritePacket c p = (None, c\<lparr>t_writeCount := t_writeCount c + 1\<rparr>)"

definition testInConn_ReadPacket :: "testInConn \<Rightarrow> (Packet \<times> error option) \<times> testInConn" where
  "testInConn_ReadPacket c =
     (let c' = c\<lparr>t_readCount := t_readCount c + 1\<rparr> in
      if t_readCount c' = 1 then ((t_hsPk c', None), c')
      else if t_readCount c' = 2 then ((t_loginPK c', None), c')
      else ((Packet_zero, None), c'))"

definition testInConn_RemoteAddr :: "testInConn \<Rightarrow> Addr \<times> testInConn" where
  "testInConn_RemoteAddr c = (TCPAddr [] 0, c)"

definition testInConn_Name :: "testInConn \<Rightarrow> (string \<times> error option) \<times> testInConn" where
  "testInConn_Name c = (([], Some ErrNotImplemented), c)"

definition testInConn_HsPk :: "testInConn \<Rightarrow> (Packet \<times> error option) \<times> testInConn" where
  "testInConn_HsPk c = ((t_hsPk c, None), c)"

definition testInConn_Hs :: "testInConn \<Rightarrow> (ServerBoundHandshake \<times> error option) \<times> testInConn" where
  "testInConn_Hs c = ((t_hs c, None), c)"

definition testInConn_LoginStart :: "testInConn \<Rightarrow> (Packet \<times> error option) \<times> testInConn" where
  "testInConn_LoginStart c = ((Packet_zero, Some ErrNotImplemented), c)"

definition testInConn_Read ::
  "testInConn \<Rightarrow> byte list \<Rightarrow> (int \<times> error option \<times> byte list) \<times> testInConn" where
  "testInConn_Read c b = ((0, Some ErrNotImplemented, b), c)"

definition testInConn_Write :: "testInConn \<Rightarrow> byte list \<Rightarrow> (int \<times> error option) \<times> testInConn" where
  "testInConn_Write c b = ((0, Some ErrNotImplemented), c)"

definition testInConn_HSConnection :: "testInConn HSConnection" where
  "testInConn_HSConnection =
     \<lparr>Read = testInConn_Read, Write = testInConn_Write,
      WritePacket = testInConn_WritePacket, ReadPacket = testInConn_ReadPacket,
      Hs = testInConn_Hs, HsPk = testInConn_HsPk, RemoteAddr = testInConn_RemoteAddr\<rparr>"

text \<open>\<^verbatim>\<open>&testInConn{hsPk: pk, hs: hs}\<close>, the connection the routing test builds.\<close>

definition testInConn_of :: "Packet \<Rightarrow> ServerBoundHandshake \<Rightarrow> testInConn" where
  "testInConn_of pk h =
     \<lparr>t_writeCount = 0, t_readCount = 0, t_hs = h, t_hsPk = pk,
      t_reqType = 0, t_loginPK = Packet_zero\<rparr>"

text \<open>
  \<^verbatim>\<open>bTestConnection\<close> of the gateway test: a connection that hands out the packets
  \<open>pks\<close> one by one and then fails with \<open>ErrNoReadLeft\<close>, and that records what is
  written to it. The wait group it shares with the test is seen here through the
  number of \<^verbatim>\<open>Done()\<close> calls the connection has made. An index outside a slice
  makes the Go code panic; the double reports that as the error \<open>ErrOther\<close> with the
  text of the panic, and no state used below reaches it. \<^verbatim>\<open>Packet.Marshal\<close> is the
  parameter \<open>marshal\<close>.
\<close>

record bTestConnection =
  b_writeCount :: int
  b_readCount :: int
  b_pks :: "Packet list"
  b_receivedPks :: "Packet list"
  b_wgDone :: nat
  b_markedDone :: bool

definition bTestConnection_markDone :: "bTestConnection \<Rightarrow> bTestConnection" where
  "bTestConnection_markDone c =
     (if \<not> b_markedDone c then c\<lparr>b_wgDone := b_wgDone c + 1, b_markedDone := True\<rparr> else c)"

definition bTestConnection_WritePacket ::
  "bTestConnection \<Rightarrow> Packet \<Rightarrow> error option \<times> bTestConnection" where
  "bTestConnection_WritePacket c p =
     (let c1 = (if b_receivedPks c = [] then c\<lparr>b_receivedPks := [Packet_zero]\<rparr> else c);
          c2 = c1\<lparr>b_receivedPks := b_receivedPks c1 @ [p]\<rparr>
      in (None, c2\<lparr>b_writeCount := b_writeCount c2 + 1\<rparr>))"

definition bTestConnection_ReadPacket ::
  "bTestConnection \<Rightarrow> (Packet \<times> error option) \<times> bTestConnection" where
  "bTestConnection_ReadPacket c =
     (if b_readCount c = int (length (b_pks c))
      then ((Packet_zero, Some ErrNoReadLeft), bTestConnection_markDone c)
      else if b_readCount c < 0 \<or> int (length (b_pks c)) < b_readCount c
      then ((Packet_zero, Some (ErrOther ''panic: index out of range'')), c)
      else ((b_pks c ! nat (b_readCount c), None), c\<lparr>b_readCount := b_readCount c + 1\<rparr>))"

definition bTestConnection_Read ::
  "(Packet \<Rightarrow> byte list \<times> error option) \<Rightarrow> bTestConnection \<Rightarrow> byte list
     \<Rightarrow> (int \<times> error option \<times> byte list) \<times> bTestConnection" where
  "bTestConnection_Read marshal c b =
     (if b_readCount c = int (length (b_pks c))
      then ((0, Some ErrNoReadLeft, b), bTestConnection_markDone c)
      else if b_readCount c < 0 \<or> int (length (b_pks c)) < b_readCount c
      then ((0, Some (ErrOther ''panic: index out of range''), b), c)
      else
        (let pk = fst (marshal (b_pks c ! nat (b_readCount c)));
             c' = c\<lparr>b_readCount := b_readCount c + 1\<rparr>
         in if length b < length pk
            then ((0, Some (ErrOther ''panic: index out of range''), take (length b) pk), c')
            else ((int (length pk), None, pk @ drop (length pk) b), c')))"

definition bTestConnection_Write ::
  "bTestConnection \<Rightarrow> byte list \<Rightarrow> (int \<times> error option) \<times> bTestConnection" where
  "bTestConnection_Write c b =
     (if length b < 2 then ((0, Some (ErrOther ''panic: index out of range'')), c)
      else
        ((0, None),
         c\<lparr>b_receivedPks := b_receivedPks c @ [\<lparr>ID = b ! 1, Data = drop 2 b\<rparr>],
           b_writeCount := b_writeCount c + 1\<rparr>))"

definition bTestConnection_Connection ::
  "(Packet \<Rightarrow> byte list \<times> error option) \<Rightarrow> bTestConnection Connection" where
  "bTestConnection_Connection marshal =
     \<lparr>Read = bTestConnection_Read marshal, Write = bTestConnection_Write,
      WritePacket = bTestConnection_WritePacket, ReadPacket = bTestConnection_ReadPacket\<rparr>"

text \<open>\<^verbatim>\<open>&bTestConnection{wg: &wg, pks: pks}\<close>.\<close>

definition bTestConnection_of :: "Packet list \<Rightarrow> bTestConnection" where
  "bTestConnection_of pks =
     \<lparr>b_writeCount = 0, b_readCount = 0, b_pks = pks, b_receivedPks = [],
      b_wgDone = 0, b_markedDone = False\<rparr>"

subsection \<open>The codecs of package protocol\<close>

text \<open>
  Modelled from the spec: the variable-length integer encoding of package protocol,
  which is not part of the sources at hand. Seven bits per byte, the least significant
  group first, the most significant bit of a byte set when another byte follows.
\<close>

fun VarInt_Encode :: "nat \<Rightarrow> byte list" where
  "VarInt_Encode n =
     (if n < 128 then [of_nat n] else of_nat (n mod 128 + 128) # VarInt_Encode (n div 128))"

declare VarInt_Encode.simps [simp del]

text \<open>
  Modelled from the spec: decoding of a variable-length integer, which is not part of the
  sources at hand. \<open>k\<close> counts the bytes already consumed; a sixth byte, or the end of the
  input, is a failure. The result is the value and the rest of the input.
\<close>

fun VarInt_Decode :: "nat \<Rightarrow> byte list \<Rightarrow> (nat \<times> byte list) option" where
  "VarInt_Decode k [] = None"
| "VarInt_Decode k (b # bs) =
     (if 5 \<le> k then None
      else if b < 128 then Some (unat b, bs)
      else (case VarInt_Decode (k + 1) bs of
              None \<Rightarrow> None
            | Some (v, rest) \<Rightarrow> Some (unat b - 128 + 128 * v, rest)))"

text \<open>
  Modelled from the spec: \<^verbatim>\<open>Packet.Marshal\<close>, which is not part of the sources at hand.
  The frame is the length of id and payload as a variable-length integer, the packet id
  as a variable-length integer, and the payload; encoding never fails.
\<close>

definition Packet_Marshal :: "Packet \<Rightarrow> byte list \<times> error option" where
  "Packet_Marshal p =
     (let data = VarInt_Encode (unat (ID p)) @ Data p
      in (VarInt_Encode (length data) @ data, None))"

text \<open>
  Modelled from the spec: reading a fixed number of bytes for a field of a packet, which
  fails on a short buffer. The result is the bytes read and the rest of the input.
\<close>

definition take_bytes :: "nat \<Rightarrow> byte list \<Rightarrow> (byte list \<times> byte list) option" where
  "take_bytes n bs = (if length bs < n then None else Some (take n bs, drop n bs))"

text \<open>
  Modelled from the spec: \<^verbatim>\<open>handshaking.UnmarshalServerBoundHandshake\<close>, which is not
  part of the sources at hand. It reads the protocol version (a variable-length integer),
  the server address (a length-prefixed string), the server port (two bytes, big endian)
  and the next state (a variable-length integer), and fails when a field cannot be read.
\<close>

definition UnmarshalServerBoundHandshake :: "Packet \<Rightarrow> ServerBoundHandshake \<times> error option" where
  "UnmarshalServerBoundHandshake pk =
     (case VarInt_Decode 0 (Data pk) of
        None \<Rightarrow> (ServerBoundHandshake_zero, Some (ErrOther ''MalformedHandshake''))
      | Some (pv, r1) \<Rightarrow>
     (case VarInt_Decode 0 r1 of
        None \<Rightarrow> (ServerBoundHandshake_zero, Some (ErrOther ''MalformedHandshake''))
      | Some (len, r2) \<Rightarrow>
     (case take_bytes len r2 of
        None \<Rightarrow> (ServerBoundHandshake_zero, Some (ErrOther ''MalformedHandshake''))
      | Some (addr, r3) \<Rightarrow>
     (case r3 of
        hi # lo # r4 \<Rightarrow>
          (case VarInt_Decode 0 r4 of
             None \<Rightarrow> (ServerBoundHandshake_zero, Some (ErrOther ''MalformedHandshake''))
           | Some (ns, r5) \<Rightarrow>
               (\<lparr>ProtocolVersion = of_nat pv,
                 ServerAddress = map (\<lambda>b. char_of (unat b)) addr,
                 ServerPort = of_nat (256 * unat hi + unat lo),
                 NextState = of_nat ns\<rparr>, None))
      | _ \<Rightarrow> (ServerBoundHandshake_zero, Some (ErrOther ''MalformedHandshake''))))))"

text \<open>
  The packets of the boundary test. The handshake packet and the login packet are
  written out as the frames the test's \<^verbatim>\<open>Marshal\<close> calls produce for the address
  \<^verbatim>\<open>infrared.test\<close>, port 25565, protocol version 754, next state 2, and for the
  player name \<^verbatim>\<open>infrared\<close>.
\<close>

definition test_HsPk :: Packet where
  "test_HsPk =
     \<lparr>ID = 0,
      Data = [0xF2, 0x05, 13, 105, 110, 102, 114, 97, 114, 101, 100, 46, 116, 101, 115, 116,
              0x63, 0xDD, 2]\<rparr>"

definition test_loginPk :: Packet where
  "test_loginPk = \<lparr>ID = 0, Data = [8, 105, 110, 102, 114, 97, 114, 101, 100]\<rparr>"

definition test_firstPipePk :: Packet where
  "test_firstPipePk = \<lparr>ID = 25, Data = [1, 2, 3, 4, 5, 6, 7, 8, 9]\<rparr>"

definition test_hs :: ServerBoundHandshake where
  "test_hs =
     \<lparr>ProtocolVersion = 754, ServerAddress = ''infrared.test'', ServerPort = 25565,
      NextState = 2\<rparr>"

text \<open>The player connection of the boundary test, over a stream that holds the
  handshake, the login start and one more packet.\<close>

definition test_playerConn :: "bTestConnection BasicPlayerConnection" where
  "test_playerConn =
     CreateBasicPlayerConnection
       (bTestConnection_of [test_HsPk, test_loginPk, test_firstPipePk])
       (TCPAddr [101, 12, 23, 85] 50674)"

definition test_ops :: "bTestConnection Connection" where
  "test_ops = bTestConnection_Connection Packet_Marshal"

text \<open>\<^verbatim>\<open>testServer\<close> of the gateway test, and the registry that
  \<^verbatim>\<open>TestFindServer_DefaultServerStore\<close> builds: the servers \<^verbatim>\<open>addr-2\<close> to
  \<^verbatim>\<open>addr-9\<close> under their own ids, then \<^verbatim>\<open>infrared-1\<close> under \<^verbatim>\<open>addr-1\<close>.\<close>

record testServer =
  ts_id :: string
  ts_loginCalled :: int
  ts_statusCalled :: int

definition testServer_of :: "string \<Rightarrow> testServer" where
  "testServer_of i = \<lparr>ts_id = i, ts_loginCalled = 0, ts_statusCalled = 0\<rparr>"

definition test_serverStore :: "testServer DefaultServerStore" where
  "test_serverStore =
     registered
       (map (\<lambda>a. (a, testServer_of a))
          [''addr-2'', ''addr-3'', ''addr-4'', ''addr-5'', ''addr-6'', ''addr-7'', ''addr-8'',
           ''addr-9'']
        @ [(''addr-1'', testServer_of ''infrared-1'')])"

section \<open>Sequences of calls on a player connection\<close>

text \<open>
  The states a player connection can be in are those that calls of its methods produce
  from a freshly created connection. \<open>player_step\<close> is the effect of one call on the
  connection, \<open>player_after\<close> the connection after a sequence of calls.
\<close>

datatype player_call =
    P_ReadPacket
  | P_WritePacket Packet
  | P_RemoteAddr
  | P_Hs
  | P_HsPk
  | P_Name
  | P_LoginStart
  | P_Read "byte list"
  | P_Write "byte list"

fun player_step ::
  "(Packet \<Rightarrow> ServerBoundHandshake \<times> error option) \<Rightarrow> ('s, 'z) Connection_scheme
     \<Rightarrow> player_call \<Rightarrow> 's BasicPlayerConnection \<Rightarrow> 's BasicPlayerConnection" where
  "player_step unm ops P_ReadPacket c = snd (BasicPlayerConnection_ReadPacket ops c)"
| "player_step unm ops (P_WritePacket p) c = snd (BasicPlayerConnection_WritePacket c p)"
| "player_step unm ops P_RemoteAddr c = snd (BasicPlayerConnection_RemoteAddr c)"
| "player_step unm ops P_Hs c = snd (BasicPlayerConnection_Hs unm ops c)"
| "player_step unm ops P_HsPk c = snd (BasicPlayerConnection_HsPk ops c)"
| "player_step unm ops P_Name c = snd (BasicPlayerConnection_Name c)"
| "player_step unm ops P_LoginStart c = snd (BasicPlayerConnection_LoginStart ops c)"
| "player_step unm ops (P_Read b) c = snd (BasicPlayerConnection_Read ops c b)"
| "player_step unm ops (P_Write b) c = snd (BasicPlayerConnection_Write ops c b)"

definition player_after ::
  "(Packet \<Rightarrow> ServerBoundHandshake \<times> error option) \<Rightarrow> ('s, 'z) Connection_scheme
     \<Rightarrow> 's \<Rightarrow> Addr \<Rightarrow> player_call list \<Rightarrow> 's BasicPlayerConnection" where
  "player_after unm ops s ra calls =
     fold (player_step unm ops) calls (CreateBasicPlayerConnection s ra)"

text \<open>\<open>player_run\<close> is a connection in any state after a further sequence of calls of
  its methods, whichever they are.\<close>

definition player_run ::
  "(Packet \<Rightarrow> ServerBoundHandshake \<times> error option) \<Rightarrow> ('s, 'z) Connection_scheme
     \<Rightarrow> player_call list \<Rightarrow> 's BasicPlayerConnection \<Rightarrow> 's BasicPlayerConnection" where
  "player_run unm ops calls c = fold (player_step unm ops) calls c"

text \<open>
  Calls of the two handshake accessors, with what they return. \<open>hs_calls_run\<close> performs
  a list of such calls one after the other and collects the results.
\<close>

datatype hs_call = Call_HsPk | Call_Hs

datatype hs_result =
    Got_HsPk "Packet \<times> error option"
  | Got_Hs "ServerBoundHandshake \<times> error option"

fun hs_result_err :: "hs_result \<Rightarrow> error option" where
  "hs_result_err (Got_HsPk r) = snd r"
| "hs_result_err (Got_Hs r) = snd r"

fun hs_call_run ::
  "(Packet \<Rightarrow> ServerBoundHandshake \<times> error option) \<Rightarrow> ('s, 'z) Connection_scheme
     \<Rightarrow> hs_call \<Rightarrow> 's BasicPlayerConnection \<Rightarrow> hs_result \<times> 's BasicPlayerConnection" where
  "hs_call_run unm ops Call_HsPk c =
     (case BasicPlayerConnection_HsPk ops c of (r, c') \<Rightarrow> (Got_HsPk r, c'))"
| "hs_call_run unm ops Call_Hs c =
     (case BasicPlayerConnection_Hs unm ops c of (r, c') \<Rightarrow> (Got_Hs r, c'))"

fun hs_calls_run ::
  "(Packet \<Rightarrow> ServerBoundHandshake \<times> error option) \<Rightarrow> ('s, 'z) Connection_scheme
     \<Rightarrow> hs_call list \<Rightarrow> 's BasicPlayerConnection
     \<Rightarrow> hs_result list \<times> 's BasicPlayerConnection" where
  "hs_calls_run unm ops [] c = ([], c)"
| "hs_calls_run unm ops (x # xs) c =
     (case hs_call_run unm ops x c of
        (r, c') \<Rightarrow> (case hs_calls_run unm ops xs c' of (rs, c'') \<Rightarrow> (r # rs, c'')))"

text \<open>What a call answers from the cache when the cached handshake packet is \<open>pk\<close>: the
  packet itself, or the handshake parsed from it.\<close>

fun cached_answer ::
  "(Packet \<Rightarrow> ServerBoundHandshake \<times> error option) \<Rightarrow> Packet \<Rightarrow> hs_call \<Rightarrow> hs_result" where
  "cached_answer unm pk Call_HsPk = Got_HsPk (pk, None)"
| "cached_answer unm pk Call_Hs = Got_Hs (unm pk)"

text \<open>The cache is consistent when a cached handshake comes with a cached packet of
  which it is the parse.\<close>

definition hs_cache_ok ::
  "(Packet \<Rightarrow> ServerBoundHandshake \<times> error option) \<Rightarrow> 's BasicPlayerConnection \<Rightarrow> bool" where
  "hs_cache_ok unm c = (if hasHS c then hasHSPk c \<and> unm (hsPk c) = (hs c, None) else True)"

section \<open>What one direction of the pipe reads and writes\<close>

text \<open>
  \<open>read_chunks c1 k s1 buffer\<close> is what \<open>k\<close> successive reads of \<open>c1\<close> into the buffer
  deliver when each of them succeeds: the chunks \<^verbatim>\<open>buffer[:n]\<close> in the order read, and
  the connection and the buffer after the last read. \<open>write_chunks c2 chunks s2\<close> is
  the connection \<open>c2\<close> after the chunks have been written to it one after the other,
  each write succeeding. \<open>failing_round\<close> is the iteration of the loop in which an
  operation fails: the read fails, or the read succeeds and the write of the chunk read
  fails; \<open>a\<close> and \<open>b\<close> are the connections after it.
\<close>

fun read_chunks ::
  "('a, 'x) PipeConnection_scheme \<Rightarrow> nat \<Rightarrow> 'a \<Rightarrow> byte list
     \<Rightarrow> (byte list list \<times> 'a \<times> byte list) option" where
  "read_chunks c1 0 s1 buffer = Some ([], s1, buffer)"
| "read_chunks c1 (Suc k) s1 buffer =
     (case Read c1 s1 buffer of
        ((n, err, buffer'), s1') \<Rightarrow>
          if err \<noteq> None then None
          else if n < 0 \<or> int (length buffer') < n then None
          else
            (case read_chunks c1 k s1' buffer' of
               None \<Rightarrow> None
             | Some (chunks, s1'', buffer'') \<Rightarrow>
                 Some (take (nat n) buffer' # chunks, s1'', buffer'')))"

fun write_chunks ::
  "('b, 'y) PipeConnection_scheme \<Rightarrow> byte list list \<Rightarrow> 'b \<Rightarrow> 'b option" where
  "write_chunks c2 [] s2 = Some s2"
| "write_chunks c2 (d # ds) s2 =
     (case Write c2 s2 d of
        ((_, err), s2') \<Rightarrow> if err \<noteq> None then None else write_chunks c2 ds s2')"

definition failing_round ::
  "('a, 'x) PipeConnection_scheme \<Rightarrow> ('b, 'y) PipeConnection_scheme
     \<Rightarrow> 'a \<Rightarrow> 'b \<Rightarrow> byte list \<Rightarrow> 'a \<Rightarrow> 'b \<Rightarrow> bool" where
  "failing_round c1 c2 s1 s2 buffer a b =
     (case Read c1 s1 buffer of
        ((n, err, buffer'), s1') \<Rightarrow>
          if err \<noteq> None then a = s1' \<and> b = s2
          else 0 \<le> n \<and> n \<le> int (length buffer')
               \<and> (case Write c2 s2 (take (nat n) buffer') of
                     ((_, err'), s2') \<Rightarrow> err' \<noteq> None \<and> a = s1' \<and> b = s2'))"

section \<open>The two loops of Pipe\<close>

text \<open>
  \<open>Pipe\<close> is \<^verbatim>\<open>go pipe(c1, c2)\<close> followed by \<^verbatim>\<open>pipe(c2, c1)\<close>: the loop from
  \<open>c1\<close> to \<open>c2\<close> runs as a background task, the loop from \<open>c2\<close> to \<open>c1\<close> runs inline,
  and \<open>Pipe\<close> returns when the inline call returns. Both loops work on the same two
  connections, so their calls of \<open>Read\<close> and \<open>Write\<close> interleave. A run of \<open>Pipe\<close> is a
  schedule: the list of the tasks in the order in which they perform their next call.

  \<open>loop_pc\<close> is where a copy loop stands: before a read (with its buffer), before the
  write of the chunk just read, ended by \<^verbatim>\<open>return\<close>, or stopped by a panic.
  \<open>loop_step\<close> performs the next call of the loop of \<open>pipe\<close>.
\<close>

datatype loop_pc = Reading "byte list" | Writing "byte list" "byte list" | Ended | Crashed

definition loop_step ::
  "('a, 'x) PipeConnection_scheme \<Rightarrow> ('b, 'y) PipeConnection_scheme
     \<Rightarrow> loop_pc \<Rightarrow> 'a \<Rightarrow> 'b \<Rightarrow> loop_pc \<times> 'a \<times> 'b" where
  "loop_step c1 c2 pc s1 s2 =
     (case pc of
        Reading buffer \<Rightarrow>
          (case Read c1 s1 buffer of
             ((n, err, buffer'), s1') \<Rightarrow>
               if err \<noteq> None then (Ended, s1', s2)
               else if n < 0 \<or> int (length buffer') < n then (Crashed, s1', s2)
               else (Writing buffer' (take (nat n) buffer'), s1', s2))
      | Writing buffer data \<Rightarrow>
          (case Write c2 s2 data of
             ((_, err'), s2') \<Rightarrow>
               if err' \<noteq> None then (Ended, s1, s2') else (Reading buffer, s1, s2'))
      | Ended \<Rightarrow> (Ended, s1, s2)
      | Crashed \<Rightarrow> (Crashed, s1, s2))"

text \<open>\<open>n\<close> calls of one loop running on its own.\<close>

fun loop_run ::
  "('a, 'x) PipeConnection_scheme \<Rightarrow> ('b, 'y) PipeConnection_scheme
     \<Rightarrow> nat \<Rightarrow> loop_pc \<Rightarrow> 'a \<Rightarrow> 'b \<Rightarrow> loop_pc \<times> 'a \<times> 'b" where
  "loop_run c1 c2 0 pc s1 s2 = (pc, s1, s2)"
| "loop_run c1 c2 (Suc n) pc s1 s2 =
     (case loop_step c1 c2 pc s1 s2 of (pc', s1', s2') \<Rightarrow> loop_run c1 c2 n pc' s1' s2')"

record ('a, 'b) Pipe_state =
  st_c1 :: 'a
  st_c2 :: 'b
  bg_loop :: loop_pc
  fg_loop :: loop_pc

datatype thread = Background | Inline

text \<open>After the \<^verbatim>\<open>go\<close> statement both loops have allocated their buffer and stand
  before their first read.\<close>

definition Pipe_start :: "'a \<Rightarrow> 'b \<Rightarrow> ('a, 'b) Pipe_state" where
  "Pipe_start s1 s2 =
     \<lparr>st_c1 = s1, st_c2 = s2, bg_loop = Reading (replicate 0xffff 0),
      fg_loop = Reading (replicate 0xffff 0)\<rparr>"

definition Pipe_step ::
  "('a, 'x) PipeConnection_scheme \<Rightarrow> ('b, 'y) PipeConnection_scheme
     \<Rightarrow> thread \<Rightarrow> ('a, 'b) Pipe_state \<Rightarrow> ('a, 'b) Pipe_state" where
  "Pipe_step c1 c2 t st =
     (case t of
        Background \<Rightarrow>
          (case loop_step c1 c2 (bg_loop st) (st_c1 st) (st_c2 st) of
             (pc, s1', s2') \<Rightarrow> st\<lparr>st_c1 := s1', st_c2 := s2', bg_loop := pc\<rparr>)
      | Inline \<Rightarrow>
          (case loop_step c2 c1 (fg_loop st) (st_c2 st) (st_c1 st) of
             (pc, s2', s1') \<Rightarrow> st\<lparr>st_c1 := s1', st_c2 := s2', fg_loop := pc\<rparr>))"

definition Pipe_run ::
  "('a, 'x) PipeConnection_scheme \<Rightarrow> ('b, 'y) PipeConnection_scheme
     \<Rightarrow> thread list \<Rightarrow> ('a, 'b) Pipe_state \<Rightarrow> ('a, 'b) Pipe_state" where
  "Pipe_run c1 c2 sched st = fold (Pipe_step c1 c2) sched st"

text \<open>\<open>Pipe\<close> has returned when its last statement, the inline call of \<open>pipe\<close>, has
  returned.\<close>

definition Pipe_returned :: "('a, 'b) Pipe_state \<Rightarrow> bool" where
  "Pipe_returned st = (fg_loop st = Ended)"

section \<open>Request classification\<close>

text \<open>
  C1, as the code has it. \<open>ParseRequestType\<close> converts the handshake's \<open>NextState\<close> to
  \<open>RequestType\<close> and nothing else: the result is the number itself. It is
  \<open>StatusRequest\<close> exactly for 1, \<open>LoginRequest\<close> exactly for 2 and \<open>UnknownRequest\<close>
  exactly for 0; every other value is a request type that is none of the three named
  constants. The error of \<open>Hs\<close> is discarded, and the connection is left in the state
  in which \<open>Hs\<close> left it.
\<close>

theorem ParseRequestType_is_NextState:
  "fst (ParseRequestType ops s) = NextState (fst (fst (Hs ops s)))
   \<and> snd (ParseRequestType ops s) = snd (Hs ops s)
   \<and> (fst (ParseRequestType ops s) = StatusRequest) = (NextState (fst (fst (Hs ops s))) = 1)
   \<and> (fst (ParseRequestType ops s) = LoginRequest) = (NextState (fst (fst (Hs ops s))) = 2)
   \<and> (fst (ParseRequestType ops s) = UnknownRequest) = (NextState (fst (fst (Hs ops s))) = 0)"
  by (simp add: ParseRequestType_def StatusRequest_def LoginRequest_def UnknownRequest_def
      split: prod.splits)

text \<open>
  C1 as the specification words it fails: a handshake whose \<open>NextState\<close> is 3 is
  classified as request type 3, not as \<open>UnknownRequest\<close>.
\<close>

theorem ParseRequestType_3_not_Unknown:
  "fst (ParseRequestType testInConn_HSConnection
         (testInConn_of Packet_zero
            \<lparr>ProtocolVersion = 754, ServerAddress = ''infrared.test'', ServerPort = 25565,
             NextState = 3\<rparr>)) = 3
   \<and> fst (ParseRequestType testInConn_HSConnection
         (testInConn_of Packet_zero
            \<lparr>ProtocolVersion = 754, ServerAddress = ''infrared.test'', ServerPort = 25565,
             NextState = 3\<rparr>)) \<noteq> UnknownRequest"
  by (simp add: ParseRequestType_def testInConn_HSConnection_def testInConn_Hs_def
      testInConn_of_def UnknownRequest_def)

section \<open>Discarded errors\<close>

text \<open>
  C9. \<open>BasicServerConn.Status\<close> writes the status request and drops what the write
  returns: for every underlying connection the result of \<open>Status\<close> is the result of the
  \<open>ReadPacket\<close> that follows the write, performed on the connection as the write left
  it, whatever error the write reported.
\<close>

theorem Status_returns_read_result:
  "fst (BasicServerConn_Status ops c)
     = fst (ReadPacket ops (snd (WritePacket ops (sconn c) (statusPK c))))
   \<and> sconn (snd (BasicServerConn_Status ops c))
     = snd (ReadPacket ops (snd (WritePacket ops (sconn c) (statusPK c))))
   \<and> statusPK (snd (BasicServerConn_Status ops c)) = statusPK c"
  by (simp add: BasicServerConn_Status_def split: prod.splits)

text \<open>
  C10. \<open>LoginStart\<close> never returns an error. When the read of the underlying connection
  fails, the packet returned (and stored) is the zero packet and the error is nil; when
  it succeeds, the packet read is returned.
\<close>

theorem LoginStart_error_is_nil:
  "snd (fst (BasicPlayerConnection_LoginStart ops c)) = None
   \<and> fst (fst (BasicPlayerConnection_LoginStart ops c))
       = (if snd (fst (ReadPacket ops (conn c))) \<noteq> None then Packet_zero
          else fst (fst (ReadPacket ops (conn c))))
   \<and> loginPk (snd (BasicPlayerConnection_LoginStart ops c))
       = fst (fst (BasicPlayerConnection_LoginStart ops c))"
  by (simp add: BasicPlayerConnection_LoginStart_def BasicPlayerConnection_ReadPacket_def
      split: prod.splits)

section \<open>Packets written to a player connection\<close>

text \<open>
  C2, evaluated on the code. \<open>WritePacket\<close> of a player connection returns nil and
  touches nothing. On the player connection of the boundary test, writing the packet
  with id 25 leaves the connection as it was: the record of the underlying connection
  stays empty and its write count stays 0. \<open>SendPK\<close> of a server connection over the
  same kind of underlying connection hands the packet on.
\<close>

theorem BasicPlayerConnection_WritePacket_writes_nothing:
  "BasicPlayerConnection_WritePacket test_playerConn test_firstPipePk = (None, test_playerConn)
   \<and> b_receivedPks (conn (snd (BasicPlayerConnection_WritePacket test_playerConn
         test_firstPipePk))) = []
   \<and> b_writeCount (conn (snd (BasicPlayerConnection_WritePacket test_playerConn
         test_firstPipePk))) = 0
   \<and> b_receivedPks (sconn (snd (BasicServerConn_SendPK test_ops
         (CreateBasicServerConn (bTestConnection_of []) Packet_zero) test_firstPipePk)))
       = [Packet_zero, test_firstPipePk]"
  by (simp add: BasicPlayerConnection_WritePacket_def test_playerConn_def
      CreateBasicPlayerConnection_def bTestConnection_of_def BasicServerConn_SendPK_def
      test_ops_def bTestConnection_Connection_def bTestConnection_WritePacket_def
      CreateBasicServerConn_def)

section \<open>The login-start packet and the player's name\<close>

text \<open>
  C4, evaluated on the code. \<open>LoginStart\<close> has no guard: every call reads a packet
  from the underlying connection and overwrites \<open>loginPk\<close>. On the boundary test's
  stream (handshake, login start, one more packet), after \<open>HsPk\<close> the first
  \<open>LoginStart\<close> returns the login packet and the second one reads again: it returns
  the third packet, stores it as \<open>loginPk\<close>, and the read count of the underlying
  connection goes from 2 to 3.
\<close>

theorem LoginStart_reads_again:
  "(let c1 = snd (BasicPlayerConnection_HsPk test_ops test_playerConn);
        r2 = BasicPlayerConnection_LoginStart test_ops c1;
        r3 = BasicPlayerConnection_LoginStart test_ops (snd r2)
    in fst r2 = (test_loginPk, None) \<and> b_readCount (conn (snd r2)) = 2
       \<and> fst r3 = (test_firstPipePk, None) \<and> b_readCount (conn (snd r3)) = 3
       \<and> loginPk (snd r2) = test_loginPk \<and> loginPk (snd r3) = test_firstPipePk
       \<and> fst r3 \<noteq> fst r2)"
  by (simp add: Let_def BasicPlayerConnection_LoginStart_def BasicPlayerConnection_HsPk_def
      BasicPlayerConnection_ReadPacket_def test_playerConn_def CreateBasicPlayerConnection_def
      bTestConnection_of_def test_ops_def bTestConnection_Connection_def
      bTestConnection_ReadPacket_def test_HsPk_def test_loginPk_def test_firstPipePk_def)

text \<open>
  C5, as the code has it. \<open>Name\<close> returns the empty string and \<open>ErrNoNameYet\<close> in every
  state of a player connection, and leaves the connection as it is: before
  \<open>LoginStart\<close>, and also in the state in which \<open>LoginStart\<close> leaves the connection,
  whatever the underlying connection delivered.
\<close>

theorem Name_always_ErrNoNameYet:
  "BasicPlayerConnection_Name c = (([], Some ErrNoNameYet), c)
   \<and> fst (BasicPlayerConnection_Name (snd (BasicPlayerConnection_LoginStart ops c)))
       = ([], Some ErrNoNameYet)
   \<and> fst (BasicPlayerConnection_Name (player_after unm ops s ra calls))
       = ([], Some ErrNoNameYet)"
  by (simp add: BasicPlayerConnection_Name_def)

text \<open>
  C5 as the specification words it fails: on the boundary test's stream, after \<open>HsPk\<close>
  and a \<open>LoginStart\<close> that read the login packet of the player \<^verbatim>\<open>infrared\<close>
  without error, \<open>Name\<close> still fails with \<open>ErrNoNameYet\<close>.
\<close>

theorem Name_fails_after_LoginStart:
  "(let c1 = snd (BasicPlayerConnection_HsPk test_ops test_playerConn);
        r2 = BasicPlayerConnection_LoginStart test_ops c1
    in fst r2 = (test_loginPk, None)
       \<and> snd (fst (ReadPacket test_ops (conn c1))) = None
       \<and> loginPk (snd r2) = test_loginPk
       \<and> fst (BasicPlayerConnection_Name (snd r2)) = ([], Some ErrNoNameYet))"
  by (simp add: Let_def BasicPlayerConnection_LoginStart_def BasicPlayerConnection_HsPk_def
      BasicPlayerConnection_ReadPacket_def test_playerConn_def CreateBasicPlayerConnection_def
      bTestConnection_of_def test_ops_def bTestConnection_Connection_def
      bTestConnection_ReadPacket_def BasicPlayerConnection_Name_def test_HsPk_def
      test_loginPk_def test_firstPipePk_def)

section \<open>Routing by server address\<close>

lemma fold_AddServer:
  "fold (\<lambda>(key, b) store. AddServer store key b) regs m = m ++ map_of (rev regs)"
proof (induction regs arbitrary: m)
  case Nil
  then show ?case by simp
next
  case (Cons r regs)
  obtain key b where r: "r = (key, b)" by (cases r)
  have step: "(case r of (key, b) \<Rightarrow> \<lambda>store. AddServer store key b) m = m(key \<mapsto> b)"
    unfolding r AddServer_def by simp
  have "fold (\<lambda>(key, b) store. AddServer store key b) (r # regs) m
      = fold (\<lambda>(key, b) store. AddServer store key b) regs (m(key \<mapsto> b))"
    by (simp add: step)
  also have "\<dots> = m(key \<mapsto> b) ++ map_of (rev regs)"
    by (rule Cons.IH)
  also have "\<dots> = m ++ map_of (rev (r # regs))"
    unfolding r by (simp add: fun_eq_iff map_add_def split: option.splits)
  finally show ?case .
qed

lemma registered_map_of: "registered regs = map_of (rev regs)"
  by (simp add: registered_def fold_AddServer DefaultServerStore_new_def)

lemma FindServer_lookup:
  "fst (FindServer ops store s)
     = (store (fst (ServerAddr ops s)), fst (ServerAddr ops s) \<in> dom store)"
  by (auto simp: FindServer_def split: prod.splits option.splits)

text \<open>
  C6, against the registry as the specification describes it. For every registry and
  every handshake connection, \<open>FindServer\<close> returns what the registry holds under the
  server address of the connection's handshake, and \<open>found\<close> is true exactly when that
  address is a key of the registry; for every other address the result is the nil
  backend and \<open>found = false\<close>. Registering a backend under a key changes the answer
  for that key only, whatever is registered under other keys: an address equal to the key
  finds the new backend, every other address finds what it found before. After the
  registrations \<open>regs\<close> the keys are exactly the addresses registered, and the backend
  under a key is the one registered last under it.
\<close>

theorem FindServer_exact_match:
  "fst (FindServer ops store s)
     = (store (fst (ServerAddr ops s)), fst (ServerAddr ops s) \<in> dom store)
   \<and> fst (ServerAddr ops s) = ServerAddress (fst (fst (Hs ops s)))
   \<and> snd (FindServer ops store s) = snd (Hs ops s)
   \<and> fst (FindServer ops (AddServer store key b) s)
       = (if fst (ServerAddr ops s) = key then (Some b, True) else fst (FindServer ops store s))
   \<and> registered regs = map_of (rev regs)
   \<and> dom (registered regs) = fst ` set regs"
proof -
  have keys: "dom (registered regs) = fst ` set regs"
    by (simp add: registered_map_of dom_map_of_conv_image_fst)
  have addr: "fst (ServerAddr ops s) = ServerAddress (fst (fst (Hs ops s)))"
    by (simp add: ServerAddr_def split: prod.splits)
  have state: "snd (FindServer ops store s) = snd (Hs ops s)"
    by (simp add: FindServer_def ServerAddr_def split: prod.splits option.splits)
  have add: "fst (FindServer ops (AddServer store key b) s)
      = (if fst (ServerAddr ops s) = key then (Some b, True) else fst (FindServer ops store s))"
    by (simp add: FindServer_lookup AddServer_def)
  from keys addr state add show ?thesis
    by (simp add: registered_map_of FindServer_lookup)
qed

text \<open>The routing test: in its registry the address \<^verbatim>\<open>addr-1\<close> finds the server
  \<^verbatim>\<open>infrared-1\<close>, and the address the test calls unfindable finds nothing.\<close>

lemma FindServer_test_DefaultServerStore:
  "fst (FindServer testInConn_HSConnection test_serverStore
          (testInConn_of Packet_zero (ServerBoundHandshake_zero\<lparr>ServerAddress := ''addr-1''\<rparr>)))
     = (Some (testServer_of ''infrared-1''), True)
   \<and> fst (FindServer testInConn_HSConnection test_serverStore
          (testInConn_of Packet_zero
             (ServerBoundHandshake_zero
                \<lparr>ServerAddress := ''pls dont use this string as actual server addr''\<rparr>)))
     = (None, False)"
  by (simp add: FindServer_def ServerAddr_def testInConn_HSConnection_def testInConn_Hs_def
      testInConn_of_def test_serverStore_def registered_map_of ServerBoundHandshake_zero_def)

section \<open>The cached handshake\<close>

lemma hs_cache_ok_Create: "hs_cache_ok unm (CreateBasicPlayerConnection s ra)"
  by (simp add: hs_cache_ok_def CreateBasicPlayerConnection_def)

lemma hs_cache_ok_HsPk:
  "hs_cache_ok unm c \<Longrightarrow> hs_cache_ok unm (snd (BasicPlayerConnection_HsPk ops c))"
  by (auto simp: hs_cache_ok_def BasicPlayerConnection_HsPk_def
      BasicPlayerConnection_ReadPacket_def split: prod.splits if_splits)

lemma hs_cache_ok_Hs:
  "hs_cache_ok unm c \<Longrightarrow> hs_cache_ok unm (snd (BasicPlayerConnection_Hs unm ops c))"
  by (auto simp: hs_cache_ok_def BasicPlayerConnection_Hs_def BasicPlayerConnection_HsPk_def
      BasicPlayerConnection_ReadPacket_def Let_def split: prod.splits if_splits)

lemma hs_cache_ok_step:
  "hs_cache_ok unm c \<Longrightarrow> hs_cache_ok unm (player_step unm ops call c)"
proof (cases call)
  case P_Hs
  assume "hs_cache_ok unm c"
  with P_Hs show ?thesis by (simp add: hs_cache_ok_Hs)
next
  case P_HsPk
  assume "hs_cache_ok unm c"
  with P_HsPk show ?thesis by (simp add: hs_cache_ok_HsPk)
qed (auto simp: hs_cache_ok_def BasicPlayerConnection_ReadPacket_def
      BasicPlayerConnection_WritePacket_def BasicPlayerConnection_RemoteAddr_def
      BasicPlayerConnection_Name_def BasicPlayerConnection_LoginStart_def
      BasicPlayerConnection_Read_def BasicPlayerConnection_Write_def
      split: prod.splits if_splits)

lemma hs_cache_ok_fold:
  "hs_cache_ok unm c \<Longrightarrow> hs_cache_ok unm (fold (player_step unm ops) calls c)"
  by (induction calls arbitrary: c) (simp_all add: hs_cache_ok_step)

lemma hs_cache_ok_player_after: "hs_cache_ok unm (player_after unm ops s ra calls)"
  by (simp add: player_after_def hs_cache_ok_fold hs_cache_ok_Create)

lemma cached_call:
  assumes "hs_cache_ok unm c" and "hasHSPk c"
  shows "fst (hs_call_run unm ops call c) = cached_answer unm (hsPk c) call
         \<and> conn (snd (hs_call_run unm ops call c)) = conn c
         \<and> hsPk (snd (hs_call_run unm ops call c)) = hsPk c
         \<and> loginPk (snd (hs_call_run unm ops call c)) = loginPk c
         \<and> hasHSPk (snd (hs_call_run unm ops call c))
         \<and> hs_cache_ok unm (snd (hs_call_run unm ops call c))"
  using assms
  by (cases call)
     (auto simp: hs_cache_ok_def BasicPlayerConnection_Hs_def BasicPlayerConnection_HsPk_def
      Let_def split: prod.splits if_splits)

lemma cached_calls:
  assumes "hs_cache_ok unm c" and "hasHSPk c"
  shows "fst (hs_calls_run unm ops later c) = map (cached_answer unm (hsPk c)) later
         \<and> conn (snd (hs_calls_run unm ops later c)) = conn c
         \<and> hsPk (snd (hs_calls_run unm ops later c)) = hsPk c
         \<and> loginPk (snd (hs_calls_run unm ops later c)) = loginPk c"
  using assms
proof (induction later arbitrary: c)
  case Nil
  then show ?case by simp
next
  case (Cons x xs)
  let ?c' = "snd (hs_call_run unm ops x c)"
  from cached_call [OF Cons.prems, of ops x]
  have step: "fst (hs_call_run unm ops x c) = cached_answer unm (hsPk c) x"
    "conn ?c' = conn c" "hsPk ?c' = hsPk c" "loginPk ?c' = loginPk c"
    "hasHSPk ?c'" "hs_cache_ok unm ?c'"
    by simp_all
  from Cons.IH [OF step(6) step(5)] step show ?case
    by (simp add: split_beta)
qed

lemma hsPk_kept_step:
  assumes "hasHSPk c"
  shows "hasHSPk (player_step unm ops call c) \<and> hsPk (player_step unm ops call c) = hsPk c"
  using assms
  by (cases call)
     (auto simp: BasicPlayerConnection_ReadPacket_def BasicPlayerConnection_WritePacket_def
      BasicPlayerConnection_RemoteAddr_def BasicPlayerConnection_Name_def
      BasicPlayerConnection_LoginStart_def BasicPlayerConnection_Read_def
      BasicPlayerConnection_Write_def BasicPlayerConnection_Hs_def
      BasicPlayerConnection_HsPk_def Let_def split: prod.splits if_splits)

lemma hsPk_kept_run:
  assumes "hasHSPk c"
  shows "hasHSPk (player_run unm ops calls c) \<and> hsPk (player_run unm ops calls c) = hsPk c"
  using assms
proof (induction calls arbitrary: c)
  case Nil
  then show ?case by (simp add: player_run_def)
next
  case (Cons x xs)
  from hsPk_kept_step [OF Cons.prems, of unm ops x]
  have s: "hasHSPk (player_step unm ops x c)" "hsPk (player_step unm ops x c) = hsPk c"
    by simp_all
  from Cons.IH [OF s(1)] s(2) show ?case
    by (simp add: player_run_def)
qed

lemma hs_cache_ok_run:
  "hs_cache_ok unm c \<Longrightarrow> hs_cache_ok unm (player_run unm ops calls c)"
  by (simp add: player_run_def hs_cache_ok_fold)

lemma cached_call_after_run:
  assumes "hs_cache_ok unm c" and "hasHSPk c"
  shows "fst (hs_call_run unm ops call (player_run unm ops others c))
           = cached_answer unm (hsPk c) call
         \<and> conn (snd (hs_call_run unm ops call (player_run unm ops others c)))
           = conn (player_run unm ops others c)
         \<and> hsPk (snd (hs_call_run unm ops call (player_run unm ops others c))) = hsPk c"
proof -
  let ?c2 = "player_run unm ops others c"
  have ok2: "hs_cache_ok unm ?c2"
    using assms(1) by (rule hs_cache_ok_run)
  from hsPk_kept_run [OF assms(2), of unm ops others]
  have has2: "hasHSPk ?c2" and pk2: "hsPk ?c2 = hsPk c"
    by simp_all
  from cached_call [OF ok2 has2, of ops call] pk2 show ?thesis
    by simp
qed

lemma first_success:
  assumes "hs_cache_ok unm c" and "hs_result_err (fst (hs_call_run unm ops call c)) = None"
  shows "hasHSPk (snd (hs_call_run unm ops call c))
         \<and> fst (hs_call_run unm ops call c)
             = cached_answer unm (hsPk (snd (hs_call_run unm ops call c))) call
         \<and> (if hasHSPk c then conn (snd (hs_call_run unm ops call c)) = conn c
             else conn (snd (hs_call_run unm ops call c)) = snd (ReadPacket ops (conn c))
                  \<and> hsPk (snd (hs_call_run unm ops call c)) = fst (fst (ReadPacket ops (conn c))))"
  using assms
  by (cases call)
     (auto simp: hs_cache_ok_def BasicPlayerConnection_Hs_def BasicPlayerConnection_HsPk_def
      BasicPlayerConnection_ReadPacket_def Let_def split: prod.splits if_splits)

text \<open>
  C3. Let \<open>c0\<close> be a player connection in any state that calls of its methods produce
  from a freshly created connection, and let a call of \<open>HsPk\<close> or \<open>Hs\<close> on it succeed,
  leaving the connection as \<open>c1\<close>. Then the call returned the cached packet \<open>hsPk c1\<close>
  (for \<open>HsPk\<close>) or its parse (for \<open>Hs\<close>). If no packet was cached before, the call
  performed one read of the underlying connection, and the packet cached is the packet
  that read returned; if one was cached, the call did not touch the underlying
  connection. Every later call of \<open>HsPk\<close> or \<open>Hs\<close> answers from the cache:

  \<^item> whatever calls of \<open>HsPk\<close> and \<open>Hs\<close> follow one another, in any number and order,
    every \<open>HsPk\<close> returns that same packet without error, every \<open>Hs\<close> returns that
    same parse, the cached packet stays the same, and the underlying connection stays
    in the state in which the successful call left it;

  \<^item> whatever calls of any methods of the connection come in between (\<open>ReadPacket\<close>,
    \<open>WritePacket\<close>, \<open>LoginStart\<close>, \<open>Read\<close>, \<open>Write\<close>, \<open>Name\<close>, \<open>RemoteAddr\<close>,
    \<open>HsPk\<close>, \<open>Hs\<close>), a call of \<open>HsPk\<close> or \<open>Hs\<close> after them returns that same packet
    or that same parse, leaves the cached packet the same, and leaves the underlying
    connection in the state in which it found it: it reads nothing.
\<close>

theorem handshake_read_once:
  assumes "c0 = player_after unm ops s ra before"
    and "hs_call_run unm ops first c0 = (r, c1)"
    and "hs_result_err r = None"
  shows "r = cached_answer unm (hsPk c1) first
         \<and> (if hasHSPk c0 then conn c1 = conn c0
             else conn c1 = snd (ReadPacket ops (conn c0))
                  \<and> hsPk c1 = fst (fst (ReadPacket ops (conn c0))))
         \<and> (\<forall>later.
               fst (hs_calls_run unm ops later c1) = map (cached_answer unm (hsPk c1)) later
               \<and> conn (snd (hs_calls_run unm ops later c1)) = conn c1
               \<and> hsPk (snd (hs_calls_run unm ops later c1)) = hsPk c1)
         \<and> (\<forall>others call.
               fst (hs_call_run unm ops call (player_run unm ops others c1))
                 = cached_answer unm (hsPk c1) call
               \<and> conn (snd (hs_call_run unm ops call (player_run unm ops others c1)))
                 = conn (player_run unm ops others c1)
               \<and> hsPk (snd (hs_call_run unm ops call (player_run unm ops others c1)))
                 = hsPk c1)"
proof -
  have ok0: "hs_cache_ok unm c0"
    using assms(1) by (simp add: hs_cache_ok_player_after)
  have r: "r = fst (hs_call_run unm ops first c0)"
    and c1: "c1 = snd (hs_call_run unm ops first c0)"
    using assms(2) by simp_all
  have err: "hs_result_err (fst (hs_call_run unm ops first c0)) = None"
    using assms(3) r by simp
  have ok1: "hs_cache_ok unm c1"
    unfolding c1 using ok0 hs_cache_ok_Hs hs_cache_ok_HsPk
    by (cases first) (simp_all add: split_beta)
  from first_success [OF ok0 err] have f: "hasHSPk c1"
    "r = cached_answer unm (hsPk c1) first"
    "(if hasHSPk c0 then conn c1 = conn c0
      else conn c1 = snd (ReadPacket ops (conn c0))
           \<and> hsPk c1 = fst (fst (ReadPacket ops (conn c0))))"
    unfolding r c1 by simp_all
  have later: "fst (hs_calls_run unm ops later c1) = map (cached_answer unm (hsPk c1)) later
      \<and> conn (snd (hs_calls_run unm ops later c1)) = conn c1
      \<and> hsPk (snd (hs_calls_run unm ops later c1)) = hsPk c1" for later
    using cached_calls [OF ok1 f(1), of ops later] by simp
  have between: "fst (hs_call_run unm ops call (player_run unm ops others c1))
        = cached_answer unm (hsPk c1) call
      \<and> conn (snd (hs_call_run unm ops call (player_run unm ops others c1)))
        = conn (player_run unm ops others c1)
      \<and> hsPk (snd (hs_call_run unm ops call (player_run unm ops others c1))) = hsPk c1"
    for others call
    by (rule cached_call_after_run [OF ok1 f(1)])
  show ?thesis
  proof (intro conjI allI)
    show "r = cached_answer unm (hsPk c1) first" by (rule f(2))
    show "if hasHSPk c0 then conn c1 = conn c0
      else conn c1 = snd (ReadPacket ops (conn c0))
           \<and> hsPk c1 = fst (fst (ReadPacket ops (conn c0)))" by (rule f(3))
  qed (simp_all add: later between)
qed

lemma test_HsPk_parse: "UnmarshalServerBoundHandshake test_HsPk = (test_hs, None)"
  by (simp add: UnmarshalServerBoundHandshake_def test_HsPk_def test_hs_def take_bytes_def
      char_of_def bit_Suc_0_iff)

lemma test_first_Hs:
  "hs_call_run UnmarshalServerBoundHandshake test_ops Call_Hs test_playerConn
   = (Got_Hs (test_hs, None),
      test_playerConn
        \<lparr>conn := (conn test_playerConn)\<lparr>b_readCount := 1\<rparr>,
          hsPk := test_HsPk, hs := test_hs, hasHS := True, hasHSPk := True\<rparr>)"
  by (simp add: BasicPlayerConnection_Hs_def BasicPlayerConnection_HsPk_def
      BasicPlayerConnection_ReadPacket_def test_playerConn_def CreateBasicPlayerConnection_def
      bTestConnection_of_def test_ops_def bTestConnection_Connection_def
      bTestConnection_ReadPacket_def test_HsPk_parse Let_def)

text \<open>
  C3 on the boundary test's player connection, fresh: the first \<open>Hs\<close> succeeds with the
  handshake of the test and reads one packet. After it, every sequence of \<open>HsPk\<close> and
  \<open>Hs\<close> calls returns the handshake packet and the handshake, and the read count of
  the underlying connection stays 1; and after any calls of any methods, \<open>LoginStart\<close>
  and \<open>ReadPacket\<close> among them, a call of \<open>HsPk\<close> or \<open>Hs\<close> still returns the
  handshake packet or the handshake and leaves the read count where it found it.
\<close>

theorem handshake_read_once_witness:
  "test_playerConn
     = player_after UnmarshalServerBoundHandshake test_ops (conn test_playerConn)
         (remoteAddr test_playerConn) []
   \<and> hs_result_err (Got_Hs (test_hs, None)) = None
   \<and> (\<forall>later.
         fst (hs_calls_run UnmarshalServerBoundHandshake test_ops later
                (snd (hs_call_run UnmarshalServerBoundHandshake test_ops Call_Hs test_playerConn)))
           = map (cached_answer UnmarshalServerBoundHandshake test_HsPk) later
         \<and> b_readCount (conn (snd (hs_calls_run UnmarshalServerBoundHandshake test_ops later
                (snd (hs_call_run UnmarshalServerBoundHandshake test_ops Call_Hs
                        test_playerConn))))) = 1)
   \<and> (\<forall>others call.
         fst (hs_call_run UnmarshalServerBoundHandshake test_ops call
                (player_run UnmarshalServerBoundHandshake test_ops others
                   (snd (hs_call_run UnmarshalServerBoundHandshake test_ops Call_Hs
                           test_playerConn))))
           = cached_answer UnmarshalServerBoundHandshake test_HsPk call
         \<and> b_readCount (conn (snd (hs_call_run UnmarshalServerBoundHandshake test_ops call
                (player_run UnmarshalServerBoundHandshake test_ops others
                   (snd (hs_call_run UnmarshalServerBoundHandshake test_ops Call_Hs
                           test_playerConn))))))
           = b_readCount (conn (player_run UnmarshalServerBoundHandshake test_ops others
                   (snd (hs_call_run UnmarshalServerBoundHandshake test_ops Call_Hs
                           test_playerConn)))))"
proof -
  let ?U = UnmarshalServerBoundHandshake
  let ?c1 = "snd (hs_call_run ?U test_ops Call_Hs test_playerConn)"
  have a: "test_playerConn
     = player_after ?U test_ops (conn test_playerConn) (remoteAddr test_playerConn) []"
    by (simp add: player_after_def test_playerConn_def CreateBasicPlayerConnection_def)
  have c: "hs_result_err (Got_Hs (test_hs, None)) = None"
    by simp
  have run: "hs_call_run ?U test_ops Call_Hs test_playerConn = (Got_Hs (test_hs, None), ?c1)"
    by (simp only: test_first_Hs snd_conv)
  have pk: "hsPk ?c1 = test_HsPk"
    by (simp only: test_first_Hs snd_conv) simp
  have cn: "b_readCount (conn ?c1) = 1"
    by (simp only: test_first_Hs snd_conv) simp
  note main = handshake_read_once [OF a run c]
  from main have "\<forall>later.
      fst (hs_calls_run ?U test_ops later ?c1) = map (cached_answer ?U (hsPk ?c1)) later
      \<and> conn (snd (hs_calls_run ?U test_ops later ?c1)) = conn ?c1
      \<and> hsPk (snd (hs_calls_run ?U test_ops later ?c1)) = hsPk ?c1"
    by blast
  then have l: "fst (hs_calls_run ?U test_ops later ?c1) = map (cached_answer ?U test_HsPk) later
      \<and> b_readCount (conn (snd (hs_calls_run ?U test_ops later ?c1))) = 1" for later
    by (simp only: pk cn)
  from main have "\<forall>others call.
      fst (hs_call_run ?U test_ops call (player_run ?U test_ops others ?c1))
        = cached_answer ?U (hsPk ?c1) call
      \<and> conn (snd (hs_call_run ?U test_ops call (player_run ?U test_ops others ?c1)))
        = conn (player_run ?U test_ops others ?c1)
      \<and> hsPk (snd (hs_call_run ?U test_ops call (player_run ?U test_ops others ?c1)))
        = hsPk ?c1"
    by blast
  then have b: "fst (hs_call_run ?U test_ops call (player_run ?U test_ops others ?c1))
        = cached_answer ?U test_HsPk call
      \<and> b_readCount (conn (snd (hs_call_run ?U test_ops call
            (player_run ?U test_ops others ?c1))))
        = b_readCount (conn (player_run ?U test_ops others ?c1))" for others call
    by (simp only: pk)
  show ?thesis
    using a c l b by blast
qed

text \<open>
  The same on a concrete interleaving: after the successful \<open>Hs\<close>, a \<open>LoginStart\<close> and a
  \<open>ReadPacket\<close> consume the two packets that are left, and \<open>HsPk\<close> then still returns
  the handshake packet, with the read count staying at 3.
\<close>

lemma HsPk_after_LoginStart_and_ReadPacket:
  "(let c1 = snd (hs_call_run UnmarshalServerBoundHandshake test_ops Call_Hs test_playerConn);
        c2 = player_run UnmarshalServerBoundHandshake test_ops [P_LoginStart, P_ReadPacket] c1;
        r3 = BasicPlayerConnection_HsPk test_ops c2
    in b_readCount (conn c2) = 3 \<and> loginPk c2 = test_loginPk
       \<and> fst r3 = (test_HsPk, None) \<and> b_readCount (conn (snd r3)) = 3)"
proof -
  have c1: "snd (hs_call_run UnmarshalServerBoundHandshake test_ops Call_Hs test_playerConn)
      = test_playerConn
          \<lparr>conn := (conn test_playerConn)\<lparr>b_readCount := 1\<rparr>,
            hsPk := test_HsPk, hs := test_hs, hasHS := True, hasHSPk := True\<rparr>"
    by (simp only: test_first_Hs snd_conv)
  show ?thesis
    unfolding Let_def c1
    by (simp add: player_run_def BasicPlayerConnection_LoginStart_def
        BasicPlayerConnection_HsPk_def BasicPlayerConnection_ReadPacket_def test_playerConn_def
        CreateBasicPlayerConnection_def bTestConnection_of_def test_ops_def
        bTestConnection_Connection_def bTestConnection_ReadPacket_def)
qed

section \<open>One direction of the pipe\<close>

lemma pipe_loop_returns_if:
  assumes "read_chunks c1 k s1 buffer = Some (chunks, s1k, bufk)"
    and "write_chunks c2 chunks s2 = Some s2k"
    and "failing_round c1 c2 s1k s2k bufk a b"
  shows "pipe_loop c1 c2 s1 s2 buffer = Some (Returned a b)"
  using assms
proof (induction k arbitrary: s1 s2 buffer chunks)
  case 0
  then show ?case
    by (subst pipe_loop.simps)
       (auto simp: failing_round_def split: prod.splits if_splits)
next
  case (Suc k)
  obtain n err buffer' s1' where rd: "Read c1 s1 buffer = ((n, err, buffer'), s1')"
    by (metis prod.exhaust)
  from Suc.prems(1) rd have ok: "err = None" "0 \<le> n" "n \<le> int (length buffer')"
    by (auto split: if_splits)
  from Suc.prems(1) rd ok obtain rest where
    rest: "read_chunks c1 k s1' buffer' = Some (rest, s1k, bufk)"
    and chunks: "chunks = take (nat n) buffer' # rest"
    by (auto split: option.splits if_splits)
  obtain m err' s2' where wr: "Write c2 s2 (take (nat n) buffer') = ((m, err'), s2')"
    by (metis prod.exhaust)
  from Suc.prems(2) chunks wr have wok: "err' = None"
    and wrest: "write_chunks c2 rest s2' = Some s2k"
    by (auto split: if_splits)
  from Suc.IH [OF rest wrest Suc.prems(3)]
  have "pipe_loop c1 c2 s1' s2' buffer' = Some (Returned a b)" .
  then show ?case
    using rd ok wr wok by (subst pipe_loop.simps) simp
qed

lemma pipe_loop_returns_only_if:
  assumes "pipe_loop c1 c2 s1 s2 buffer = Some y"
  shows "\<forall>a b. y = Returned a b \<longrightarrow>
           (\<exists>k chunks s1k bufk s2k.
              read_chunks c1 k s1 buffer = Some (chunks, s1k, bufk)
              \<and> write_chunks c2 chunks s2 = Some s2k
              \<and> failing_round c1 c2 s1k s2k bufk a b)"
proof (rule pipe_loop.raw_induct
    [where P = "\<lambda>c1 c2 s1 s2 buffer y. \<forall>a b. y = Returned a b \<longrightarrow>
           (\<exists>k chunks s1k bufk s2k.
              read_chunks c1 k s1 buffer = Some (chunks, s1k, bufk)
              \<and> write_chunks c2 chunks s2 = Some s2k
              \<and> failing_round c1 c2 s1k s2k bufk a b)", OF _ assms], goal_cases)
  case (1 f c1 c2 s1 s2 buffer y)
  obtain n err buffer' s1' where rd: "Read c1 s1 buffer = ((n, err, buffer'), s1')"
    by (metis prod.exhaust)
  obtain m err' s2' where wr: "Write c2 s2 (take (nat n) buffer') = ((m, err'), s2')"
    by (metis prod.exhaust)
  show ?case
  proof (intro allI impI)
    fix a b
    assume y: "y = Returned a b"
    consider (rfail) "err \<noteq> None"
      | (wfail) "err = None" "0 \<le> n" "n \<le> int (length buffer')" "err' \<noteq> None"
      | (cont) "err = None" "0 \<le> n" "n \<le> int (length buffer')" "err' = None"
      | (panic) "err = None" "n < 0 \<or> int (length buffer') < n"
      by linarith
    then show "\<exists>k chunks s1k bufk s2k.
              read_chunks c1 k s1 buffer = Some (chunks, s1k, bufk)
              \<and> write_chunks c2 chunks s2 = Some s2k
              \<and> failing_round c1 c2 s1k s2k bufk a b"
    proof cases
      case rfail
      with 1(2) rd y have "failing_round c1 c2 s1 s2 buffer a b"
        by (auto simp: failing_round_def)
      then have "read_chunks c1 0 s1 buffer = Some ([], s1, buffer)
          \<and> write_chunks c2 [] s2 = Some s2 \<and> failing_round c1 c2 s1 s2 buffer a b"
        by simp
      then show ?thesis by blast
    next
      case wfail
      with 1(2) rd wr y have "failing_round c1 c2 s1 s2 buffer a b"
        by (auto simp: failing_round_def)
      then have "read_chunks c1 0 s1 buffer = Some ([], s1, buffer)
          \<and> write_chunks c2 [] s2 = Some s2 \<and> failing_round c1 c2 s1 s2 buffer a b"
        by simp
      then show ?thesis by blast
    next
      case cont
      with 1(2) rd wr have "f c1 c2 s1' s2' buffer' = Some y"
        by auto
      from 1(1) [OF this] y obtain k chunks s1k bufk s2k where
        r: "read_chunks c1 k s1' buffer' = Some (chunks, s1k, bufk)"
        and w: "write_chunks c2 chunks s2' = Some s2k"
        and f: "failing_round c1 c2 s1k s2k bufk a b"
        by blast
      have "read_chunks c1 (Suc k) s1 buffer = Some (take (nat n) buffer' # chunks, s1k, bufk)"
        using rd cont r by simp
      moreover have "write_chunks c2 (take (nat n) buffer' # chunks) s2 = Some s2k"
        using wr cont w by simp
      ultimately show ?thesis using f by blast
    next
      case panic
      with 1(2) rd y show ?thesis by auto
    qed
  qed
qed

text \<open>
  C7. The copy loop from \<open>c1\<close> to \<open>c2\<close> returns, leaving the connections as \<open>a\<close> and
  \<open>b\<close>, exactly when there is a number \<open>k\<close> of iterations such that the first \<open>k\<close> reads
  of \<open>c1\<close> succeed, the chunks they deliver are written to \<open>c2\<close> as they are and in the
  order read, each write succeeding, and in the iteration after them an operation
  fails: the read, or the write of the chunk just read. That failing operation is the
  first one that fails, and its iteration is the last: \<open>a\<close> and \<open>b\<close> are the
  connections as that iteration leaves them. A chunk that a read hands back together
  with an error is not written. (A read that reports a length outside the buffer makes
  the loop panic instead of return.)
\<close>

theorem pipe_forwards_until_failure:
  "pipe c1 c2 s1 s2 = Some (Returned a b)
   \<longleftrightarrow> (\<exists>k chunks s1k bufk s2k.
          read_chunks c1 k s1 (replicate 0xffff 0) = Some (chunks, s1k, bufk)
          \<and> write_chunks c2 chunks s2 = Some s2k
          \<and> failing_round c1 c2 s1k s2k bufk a b)"
  unfolding pipe_def
proof
  assume "pipe_loop c1 c2 s1 s2 (replicate 0xffff 0) = Some (Returned a b)"
  from pipe_loop_returns_only_if [OF this] show
    "\<exists>k chunks s1k bufk s2k.
       read_chunks c1 k s1 (replicate 0xffff 0) = Some (chunks, s1k, bufk)
       \<and> write_chunks c2 chunks s2 = Some s2k
       \<and> failing_round c1 c2 s1k s2k bufk a b"
    by simp
next
  assume "\<exists>k chunks s1k bufk s2k.
       read_chunks c1 k s1 (replicate 0xffff 0) = Some (chunks, s1k, bufk)
       \<and> write_chunks c2 chunks s2 = Some s2k
       \<and> failing_round c1 c2 s1k s2k bufk a b"
  then obtain k chunks s1k bufk s2k where
    "read_chunks c1 k s1 (replicate 0xffff 0) = Some (chunks, s1k, bufk)"
    "write_chunks c2 chunks s2 = Some s2k"
    "failing_round c1 c2 s1k s2k bufk a b"
    by blast
  then show "pipe_loop c1 c2 s1 s2 (replicate 0xffff 0) = Some (Returned a b)"
    by (rule pipe_loop_returns_if)
qed

lemma test_firstPipePk_frame:
  "Packet_Marshal test_firstPipePk = ([10, 25, 1, 2, 3, 4, 5, 6, 7, 8, 9], None)"
  by code_simp

text \<open>
  The loop on the connections of the boundary test: the incoming connection holds one
  packet, the outgoing one records what is written. The loop copies the frame of the
  packet, fails on the second read and returns; the outgoing connection has received
  the packet, unchanged.
\<close>

lemma pipe_boundary_test:
  "pipe test_ops test_ops (bTestConnection_of [test_firstPipePk]) (bTestConnection_of [])
   = Some (Returned
       \<lparr>b_writeCount = 0, b_readCount = 1, b_pks = [test_firstPipePk], b_receivedPks = [],
        b_wgDone = 1, b_markedDone = True\<rparr>
       \<lparr>b_writeCount = 1, b_readCount = 0, b_pks = [], b_receivedPks = [test_firstPipePk],
        b_wgDone = 0, b_markedDone = False\<rparr>)"
  apply (simp add: pipe_def)
  apply (subst pipe_loop.simps)
  apply (simp add: test_ops_def bTestConnection_Connection_def bTestConnection_Read_def
      bTestConnection_Write_def bTestConnection_of_def test_firstPipePk_frame
      bTestConnection_markDone_def)
  apply (subst pipe_loop.simps)
  apply (simp add: test_ops_def bTestConnection_Connection_def bTestConnection_Read_def
      bTestConnection_Write_def bTestConnection_of_def test_firstPipePk_frame
      bTestConnection_markDone_def test_firstPipePk_def)
  done

text \<open>C7 on the connections of the boundary test: the rounds the theorem speaks of
  exist.\<close>

theorem pipe_forwards_until_failure_witness:
  "\<exists>k chunks s1k bufk s2k.
     read_chunks test_ops k (bTestConnection_of [test_firstPipePk]) (replicate 0xffff 0)
       = Some (chunks, s1k, bufk)
     \<and> write_chunks test_ops chunks (bTestConnection_of []) = Some s2k
     \<and> failing_round test_ops test_ops s1k s2k bufk
         \<lparr>b_writeCount = 0, b_readCount = 1, b_pks = [test_firstPipePk], b_receivedPks = [],
          b_wgDone = 1, b_markedDone = True\<rparr>
         \<lparr>b_writeCount = 1, b_readCount = 0, b_pks = [], b_receivedPks = [test_firstPipePk],
          b_wgDone = 0, b_markedDone = False\<rparr>"
  using pipe_boundary_test
  by (simp only: pipe_forwards_until_failure)

section \<open>Both directions of the pipe\<close>

text \<open>One loop running on its own, call by call, is the loop of \<open>pipe\<close>.\<close>

lemma loop_run_Ended [simp]:
  "loop_run c1 c2 n Ended s1 s2 = (Ended, s1, s2)"
  by (induction n) (simp_all add: loop_step_def)

lemma loop_run_Crashed [simp]:
  "loop_run c1 c2 n Crashed s1 s2 = (Crashed, s1, s2)"
  by (induction n) (simp_all add: loop_step_def)

lemma loop_run_returns_if:
  "loop_run c1 c2 n (Reading buffer) s1 s2 = (Ended, a, b)
   \<Longrightarrow> pipe_loop c1 c2 s1 s2 buffer = Some (Returned a b)"
proof (induction n arbitrary: s1 s2 buffer rule: less_induct)
  case (less n)
  obtain k err buffer' s1' where rd: "Read c1 s1 buffer = ((k, err, buffer'), s1')"
    by (metis prod.exhaust)
  obtain m err' s2' where wr: "Write c2 s2 (take (nat k) buffer') = ((m, err'), s2')"
    by (metis prod.exhaust)
  from less.prems obtain n1 where n1: "n = Suc n1"
    by (cases n) simp_all
  show ?case
  proof (cases "err \<noteq> None")
    case True
    with less.prems rd n1 show ?thesis
      by (subst pipe_loop.simps) (simp add: loop_step_def)
  next
    case noerr: False
    show ?thesis
    proof (cases "k < 0 \<or> int (length buffer') < k")
      case True
      with less.prems rd n1 noerr show ?thesis
        by (simp add: loop_step_def)
    next
      case inrange: False
      with less.prems rd n1 noerr have
        w: "loop_run c1 c2 n1 (Writing buffer' (take (nat k) buffer')) s1' s2 = (Ended, a, b)"
        by (simp add: loop_step_def)
      then obtain n2 where n2: "n1 = Suc n2"
        by (cases n1) simp_all
      show ?thesis
      proof (cases "err' \<noteq> None")
        case True
        with w wr n2 rd noerr inrange show ?thesis
          by (subst pipe_loop.simps) (simp add: loop_step_def)
      next
        case False
        with w wr n2 have "loop_run c1 c2 n2 (Reading buffer') s1' s2' = (Ended, a, b)"
          by (simp add: loop_step_def)
        from less.IH [OF _ this] n1 n2
        have "pipe_loop c1 c2 s1' s2' buffer' = Some (Returned a b)" by simp
        with rd wr noerr inrange False show ?thesis
          by (subst pipe_loop.simps) simp
      qed
    qed
  qed
qed

lemma loop_run_returns_only_if:
  assumes "pipe_loop c1 c2 s1 s2 buffer = Some y"
  shows "\<forall>a b. y = Returned a b \<longrightarrow>
           (\<exists>n. loop_run c1 c2 n (Reading buffer) s1 s2 = (Ended, a, b))"
proof (rule pipe_loop.raw_induct
    [where P = "\<lambda>c1 c2 s1 s2 buffer y. \<forall>a b. y = Returned a b \<longrightarrow>
           (\<exists>n. loop_run c1 c2 n (Reading buffer) s1 s2 = (Ended, a, b))", OF _ assms],
    goal_cases)
  case (1 f c1 c2 s1 s2 buffer y)
  obtain k err buffer' s1' where rd: "Read c1 s1 buffer = ((k, err, buffer'), s1')"
    by (metis prod.exhaust)
  obtain m err' s2' where wr: "Write c2 s2 (take (nat k) buffer') = ((m, err'), s2')"
    by (metis prod.exhaust)
  show ?case
  proof (intro allI impI)
    fix a b
    assume y: "y = Returned a b"
    consider (rfail) "err \<noteq> None"
      | (wfail) "err = None" "0 \<le> k" "k \<le> int (length buffer')" "err' \<noteq> None"
      | (cont) "err = None" "0 \<le> k" "k \<le> int (length buffer')" "err' = None"
      | (panic) "err = None" "k < 0 \<or> int (length buffer') < k"
      by linarith
    then show "\<exists>n. loop_run c1 c2 n (Reading buffer) s1 s2 = (Ended, a, b)"
    proof cases
      case rfail
      with 1(2) rd y have "loop_run c1 c2 (Suc 0) (Reading buffer) s1 s2 = (Ended, a, b)"
        by (auto simp: loop_step_def)
      then show ?thesis by blast
    next
      case wfail
      with 1(2) rd wr y
      have "loop_run c1 c2 (Suc (Suc 0)) (Reading buffer) s1 s2 = (Ended, a, b)"
        by (auto simp: loop_step_def)
      then show ?thesis by blast
    next
      case cont
      with 1(2) rd wr have "f c1 c2 s1' s2' buffer' = Some y"
        by auto
      from 1(1) [OF this] y obtain n where
        "loop_run c1 c2 n (Reading buffer') s1' s2' = (Ended, a, b)"
        by blast
      with rd wr cont
      have "loop_run c1 c2 (Suc (Suc n)) (Reading buffer) s1 s2 = (Ended, a, b)"
        by (auto simp: loop_step_def)
      then show ?thesis by blast
    next
      case panic
      with 1(2) rd y show ?thesis by auto
    qed
  qed
qed

lemma Pipe_run_Inline:
  "Pipe_run c1 c2 (replicate n Inline) st
   = (case loop_run c2 c1 n (fg_loop st) (st_c2 st) (st_c1 st) of
        (pc, s2', s1') \<Rightarrow> st\<lparr>st_c1 := s1', st_c2 := s2', fg_loop := pc\<rparr>)"
proof (induction n arbitrary: st)
  case 0
  then show ?case by (simp add: Pipe_run_def)
next
  case (Suc n)
  have "Pipe_run c1 c2 (replicate (Suc n) Inline) st
      = Pipe_run c1 c2 (replicate n Inline) (Pipe_step c1 c2 Inline st)"
    by (simp add: Pipe_run_def)
  then show ?case
    by (simp add: Suc.IH Pipe_step_def split: prod.splits)
qed

text \<open>
  C8, as the code has it. \<open>Pipe\<close> returns exactly when the inline loop from \<open>c2\<close> to
  \<open>c1\<close> has ended; the background loop is not waited for. Whenever the loop from \<open>c2\<close>
  to \<open>c1\<close>, run on its own, returns and leaves the connections as \<open>b\<close> and \<open>a\<close>, there
  is a run of \<open>Pipe\<close> in which only the inline loop has been scheduled, at the end of
  which \<open>Pipe\<close> has returned, the connections are \<open>a\<close> and \<open>b\<close>, and the background
  loop still stands before its first read; and only then is there such a run. In every
  run, \<open>Pipe\<close> has returned exactly when the inline loop has ended, and a call of one
  loop never moves the other loop.
\<close>

theorem Pipe_returns_with_inline_loop:
  "(pipe c2 c1 s2 s1 = Some (Returned b a)
    \<longleftrightarrow> (\<exists>n. Pipe_run c1 c2 (replicate n Inline) (Pipe_start s1 s2)
              = \<lparr>st_c1 = a, st_c2 = b, bg_loop = Reading (replicate 0xffff 0),
                 fg_loop = Ended\<rparr>))
   \<and> Pipe_returned \<lparr>st_c1 = a, st_c2 = b, bg_loop = Reading (replicate 0xffff 0),
                 fg_loop = Ended\<rparr>
   \<and> Pipe_returned (Pipe_run c1 c2 sched (Pipe_start s1 s2))
       = (fg_loop (Pipe_run c1 c2 sched (Pipe_start s1 s2)) = Ended)
   \<and> fg_loop (Pipe_step c1 c2 Background st) = fg_loop st
   \<and> bg_loop (Pipe_step c1 c2 Inline st) = bg_loop st"
proof -
  have eq: "(Pipe_run c1 c2 (replicate n Inline) (Pipe_start s1 s2)
              = \<lparr>st_c1 = a, st_c2 = b, bg_loop = Reading (replicate 0xffff 0),
                 fg_loop = Ended\<rparr>)
      = (loop_run c2 c1 n (Reading (replicate 0xffff 0)) s2 s1 = (Ended, b, a))" for n
    by (cases "loop_run c2 c1 n (Reading (replicate 0xffff 0)) s2 s1")
       (auto simp: Pipe_run_Inline Pipe_start_def)
  have "pipe c2 c1 s2 s1 = Some (Returned b a)
    \<longleftrightarrow> (\<exists>n. loop_run c2 c1 n (Reading (replicate 0xffff 0)) s2 s1 = (Ended, b, a))"
    unfolding pipe_def
  proof
    assume "pipe_loop c2 c1 s2 s1 (replicate 0xffff 0) = Some (Returned b a)"
    from loop_run_returns_only_if [OF this]
    show "\<exists>n. loop_run c2 c1 n (Reading (replicate 0xffff 0)) s2 s1 = (Ended, b, a)"
      by simp
  next
    assume "\<exists>n. loop_run c2 c1 n (Reading (replicate 0xffff 0)) s2 s1 = (Ended, b, a)"
    then obtain n where
      "loop_run c2 c1 n (Reading (replicate 0xffff 0)) s2 s1 = (Ended, b, a)" ..
    then show "pipe_loop c2 c1 s2 s1 (replicate 0xffff 0) = Some (Returned b a)"
      by (rule loop_run_returns_if)
  qed
  also have "\<dots> \<longleftrightarrow> (\<exists>n. Pipe_run c1 c2 (replicate n Inline) (Pipe_start s1 s2)
              = \<lparr>st_c1 = a, st_c2 = b, bg_loop = Reading (replicate 0xffff 0),
                 fg_loop = Ended\<rparr>)"
    by (simp add: eq)
  finally show ?thesis
    by (simp add: Pipe_returned_def Pipe_step_def split: prod.splits)
qed

text \<open>
  C8 as the specification words it fails. In the boundary test's setting the player side
  holds a packet and the backend side has nothing to read: the first read of the inline
  loop fails, and \<open>Pipe\<close> has returned while the background loop has not ended (it has
  not yet read, and the backend has received nothing). The background loop goes on
  copying after the return: two calls later the backend has received the packet.
\<close>

theorem Pipe_returns_before_background_ends:
  "Pipe_returned (Pipe_run test_ops test_ops [Inline]
      (Pipe_start (bTestConnection_of [test_firstPipePk]) (bTestConnection_of [])))
   \<and> bg_loop (Pipe_run test_ops test_ops [Inline]
      (Pipe_start (bTestConnection_of [test_firstPipePk]) (bTestConnection_of [])))
      = Reading (replicate 0xffff 0)
   \<and> bg_loop (Pipe_run test_ops test_ops [Inline]
      (Pipe_start (bTestConnection_of [test_firstPipePk]) (bTestConnection_of []))) \<noteq> Ended
   \<and> b_receivedPks (st_c2 (Pipe_run test_ops test_ops [Inline]
      (Pipe_start (bTestConnection_of [test_firstPipePk]) (bTestConnection_of [])))) = []
   \<and> b_receivedPks (st_c2 (Pipe_run test_ops test_ops [Inline, Background, Background]
      (Pipe_start (bTestConnection_of [test_firstPipePk]) (bTestConnection_of []))))
      = [test_firstPipePk]"
  apply (simp add: Pipe_returned_def Pipe_run_def Pipe_step_def Pipe_start_def loop_step_def
      test_ops_def bTestConnection_Connection_def bTestConnection_Read_def
      bTestConnection_Write_def bTestConnection_of_def test_firstPipePk_frame
      bTestConnection_markDone_def Let_def)
  apply (simp add: test_firstPipePk_def)
  done

end
